theory Spec2Isabelle
  imports
    Complex_Main
    "HOL-Library.Char_ord"
    "HOL-Library.List_Lexorder"
    "HOL-Library.Product_Lexorder"
    "HOL-Library.Multiset"
    "HOL-Library.AList"
begin

section \<open>Data model\<close>

text \<open>
  The repository holds two versions of \<^verbatim>\<open>pages/Dashboard.tsx\<close>: a day-book version
  (simple postings: fee payments, income entries, expenditures, dated opening-balance
  overrides, account categories) and a double-entry version (journal vouchers, ledger
  report, trial balance). Both are embedded here, each from its own code.

  Amounts are JavaScript numbers. The model computes with exact rationals, so the
  rounding of binary floating point is outside the model; a \<^verbatim>\<open>NaN\<close> produced by
  \<^verbatim>\<open>parseFloat\<close> is the value \<open>None\<close> of an option.

  Identifiers come from \<^verbatim>\<open>generateId()\<close> (a random string); the model takes each
  generated identifier as an argument.
\<close>

datatype BalanceType = Credit | Debit

datatype error = Unbalanced | TooFewLines | CategoryInUse

subsection \<open>Day-book version\<close>

text \<open>
  Dates are \<^verbatim>\<open>YYYY-MM-DD\<close> strings in the source. The records take the date type as a
  parameter: the balance engine steps through calendar days with \<^verbatim>\<open>Date\<close> objects and
  is modelled on day numbers (\<open>int\<close>), the spreadsheet import only builds the text.
\<close>

record 'd OpeningBalance =
  ob_id :: 'd
  ob_amount :: rat
  ob_type :: BalanceType


record 'd IncomeEntry =
  ie_id :: string
  ie_date :: 'd
  ie_accountId :: string
  ie_amount :: rat
  ie_remarks :: string

record 'd Expenditure =
  ex_id :: string
  ex_date :: 'd
  ex_accountId :: string
  ex_amount :: rat
  ex_remarks :: string

record AccountCategory =
  cat_id :: string
  cat_name :: string
  cat_isSystem :: bool

record Account =
  acc_id :: string
  acc_name :: string
  acc_categoryId :: string
  acc_isStudentAccount :: bool

subsection \<open>Double-entry version\<close>

datatype VoucherType = Payment | Receipt | Journal | Contra

datatype AccountGroupName = Assets | Liabilities | Equity | Income | Expenses

record LedgerAccount =
  la_id :: string
  la_name :: string
  la_group :: AccountGroupName
  la_openingBalance :: rat
  la_openingBalanceType :: BalanceType
  la_isDefault :: bool

record Transaction =
  t_accountId :: string
  t_type :: BalanceType
  t_amount :: rat

text \<open>
  \<^verbatim>\<open>Omit<JournalEntry, 'id' | 'voucherNumber'>\<close> is the base record; a stored
  \<^verbatim>\<open>JournalEntry\<close> extends it with the two omitted fields.
\<close>

record NewJournalEntry =
  je_date :: string
  je_voucherType :: VoucherType
  je_narration :: string
  je_transactions :: "Transaction list"
  je_relatedFeePaymentId :: "string option"

record JournalEntry = NewJournalEntry +
  je_id :: string
  je_voucherNumber :: int

section \<open>Operations\<close>

subsection \<open>Day book: saving an opening-balance override\<close>

text \<open>
  \<^verbatim>\<open>handleSaveOpeningBalance\<close>: the arguments are the component's \<^verbatim>\<open>openingBalances\<close>,
  \<^verbatim>\<open>selectedDate\<close> and the two fields of \<^verbatim>\<open>openingBalanceForm\<close>; the result is the
  collection handed to \<^verbatim>\<open>onSaveOpeningBalances\<close>.
\<close>

definition handleSaveOpeningBalance ::
  "'d OpeningBalance list \<Rightarrow> 'd \<Rightarrow> rat \<Rightarrow> BalanceType \<Rightarrow> 'd OpeningBalance list" where
  "handleSaveOpeningBalance openingBalances selectedDate formAmount formType =
     (let updatedBalances = filter (\<lambda>ob. ob_id ob \<noteq> selectedDate) openingBalances
      in if formAmount > 0
         then updatedBalances @
                [\<lparr>ob_id = selectedDate, ob_amount = formAmount, ob_type = formType\<rparr>]
         else updatedBalances)"

subsection \<open>Chart of accounts: deleting a category\<close>

text \<open>
  \<^verbatim>\<open>handleDeleteCategory\<close>: the alert branch is the error \<open>CategoryInUse\<close>; otherwise the
  result is the stored category collection after the call. \<open>confirmed\<close> is the answer
  to \<^verbatim>\<open>window.confirm\<close>.
\<close>

definition handleDeleteCategory ::
  "Account list \<Rightarrow> AccountCategory list \<Rightarrow> bool \<Rightarrow> string \<Rightarrow> error + AccountCategory list" where
  "handleDeleteCategory accounts accountCategories confirmed cid =
     (if list_ex (\<lambda>acc. acc_categoryId acc = cid) accounts then Inl CategoryInUse
      else if confirmed then Inr (filter (\<lambda>c. cat_id c \<noteq> cid) accountCategories)
      else Inr accountCategories)"

subsection \<open>Journal: numbering and appending a voucher\<close>

definition lastVoucherNumber :: "JournalEntry list \<Rightarrow> int" where
  "lastVoucherNumber journalEntries =
     foldl (\<lambda>mx je. max mx (je_voucherNumber je)) 0 journalEntries"

definition handleSaveNewJournalEntry ::
  "JournalEntry list \<Rightarrow> string \<Rightarrow> NewJournalEntry \<Rightarrow> JournalEntry list" where
  "handleSaveNewJournalEntry journalEntries newId entry =
     journalEntries @
       [NewJournalEntry.extend entry
          \<lparr>je_id = newId, je_voucherNumber = lastVoucherNumber journalEntries + 1\<rparr>]"

text \<open>
  The ledger's numbering invariant: voucher numbers are positive and strictly increasing
  along the stored list, which is the posting order.
\<close>

definition wellNumbered :: "JournalEntry list \<Rightarrow> bool" where
  "wellNumbered journalEntries \<longleftrightarrow>
     sorted_wrt (<) (map je_voucherNumber journalEntries) \<and>
     list_all (\<lambda>je. 0 < je_voucherNumber je) journalEntries"

subsection \<open>Voucher entry form\<close>

text \<open>
  A row of the voucher form (\<^verbatim>\<open>VoucherFormModal\<close>). The source keeps the two amounts as
  the text of the input fields and reads them with \<^verbatim>\<open>parseFloat\<close>; the record holds what
  \<^verbatim>\<open>parseFloat\<close> returns for the text, \<open>None\<close> for \<^verbatim>\<open>NaN\<close> (an empty or non-numeric
  field). An account not yet selected is the empty string.
\<close>

record FormLine =
  fl_id :: string
  fl_accountId :: string
  fl_debit :: "rat option"
  fl_credit :: "rat option"

text \<open>\<^verbatim>\<open>parseFloat(x) || 0\<close>: \<^verbatim>\<open>NaN\<close> and 0 are falsy.\<close>

definition orZero :: "rat option \<Rightarrow> rat" where
  "orZero v = (case v of None \<Rightarrow> 0 | Some x \<Rightarrow> x)"

definition totalDebit :: "FormLine list \<Rightarrow> rat" where
  "totalDebit transactions = foldl (\<lambda>sum t. sum + orZero (fl_debit t)) 0 transactions"

definition totalCredit :: "FormLine list \<Rightarrow> rat" where
  "totalCredit transactions = foldl (\<lambda>sum t. sum + orZero (fl_credit t)) 0 transactions"

text \<open>The body of the \<^verbatim>\<open>map\<close> in \<^verbatim>\<open>handleSave\<close>; \<open>None\<close> is the \<^verbatim>\<open>null\<close> filtered out afterwards.\<close>

definition finalTransaction :: "FormLine \<Rightarrow> Transaction option" where
  "finalTransaction t =
     (let debit = orZero (fl_debit t); credit = orZero (fl_credit t)
      in if fl_accountId t = [] \<or> (debit = 0 \<and> credit = 0) then None
         else Some \<lparr>t_accountId = fl_accountId t,
                    t_type = (if debit > 0 then Debit else Credit),
                    t_amount = (if debit > 0 then debit else credit)\<rparr>)"

text \<open>
  \<^verbatim>\<open>handleSave\<close> of \<^verbatim>\<open>VoucherFormModal\<close>. The two alerts are the errors \<open>Unbalanced\<close> and
  \<open>TooFewLines\<close>; \<open>Inr\<close> carries the entry handed to \<^verbatim>\<open>onSave\<close>.
\<close>

definition handleSave ::
  "string \<Rightarrow> VoucherType \<Rightarrow> string \<Rightarrow> FormLine list \<Rightarrow> error + NewJournalEntry" where
  "handleSave date voucherType narration transactions =
     (if \<bar>totalDebit transactions - totalCredit transactions\<bar> > 1 / 100
          \<or> totalDebit transactions = 0
      then Inl Unbalanced
      else
        let finalTransactions = List.map_filter finalTransaction transactions
        in if length finalTransactions < 2 then Inl TooFewLines
           else Inr \<lparr>je_date = date, je_voucherType = voucherType, je_narration = narration,
                     je_transactions = finalTransactions, je_relatedFeePaymentId = None\<rparr>)"

text \<open>
  The form wired to the journal store: \<^verbatim>\<open>onSave\<close> is \<^verbatim>\<open>handleSaveNewJournalEntry\<close>. The
  result is the stored journal after the click on ``Save Voucher''.
\<close>

definition saveVoucher ::
  "JournalEntry list \<Rightarrow> string \<Rightarrow> string \<Rightarrow> VoucherType \<Rightarrow> string \<Rightarrow> FormLine list
     \<Rightarrow> JournalEntry list" where
  "saveVoucher journalEntries newId date voucherType narration transactions =
     (case handleSave date voucherType narration transactions of
        Inl e \<Rightarrow> journalEntries
      | Inr entry \<Rightarrow> handleSaveNewJournalEntry journalEntries newId entry)"

text \<open>The sum of the amounts of a voucher's lines of one direction.\<close>

definition lineTotal :: "BalanceType \<Rightarrow> Transaction list \<Rightarrow> rat" where
  "lineTotal ty ts = sum_list (map t_amount (filter (\<lambda>t. t_type t = ty) ts))"

subsection \<open>Fee payments and their linked vouchers\<close>





subsection \<open>Ledger report\<close>

record LedgerRow =
  lr_date :: string
  lr_narration :: string
  lr_debit :: rat
  lr_credit :: rat
  lr_balance :: rat

record LedgerReport =
  rep_accountName :: string
  rep_transactions :: "LedgerRow list"
  rep_finalBalance :: rat

text \<open>The signed opening balance of an account and the signed amount of a line: debit positive.\<close>

definition openingSigned :: "LedgerAccount \<Rightarrow> rat" where
  "openingSigned a =
     (if la_openingBalanceType a = Debit then la_openingBalance a else - la_openingBalance a)"

definition lineSigned :: "Transaction \<Rightarrow> rat" where
  "lineSigned t = (if t_type t = Debit then t_amount t else - t_amount t)"

text \<open>The body of the inner \<^verbatim>\<open>forEach\<close>: the state is the running balance and the rows pushed so far.\<close>

definition ledgerLine ::
  "string \<Rightarrow> JournalEntry \<Rightarrow> rat \<times> LedgerRow list \<Rightarrow> Transaction \<Rightarrow> rat \<times> LedgerRow list" where
  "ledgerLine ledgerAccountId je st t =
     (case st of (balance, rows) \<Rightarrow>
        if t_accountId t = ledgerAccountId then
          let balance' = balance + lineSigned t
          in (balance',
              rows @ [\<lparr>lr_date = je_date je, lr_narration = je_narration je,
                        lr_debit = (if t_type t = Debit then t_amount t else 0),
                        lr_credit = (if t_type t = Credit then t_amount t else 0),
                        lr_balance = balance'\<rparr>])
        else (balance, rows))"

text \<open>
  \<^verbatim>\<open>ledgerReportData\<close>. Dates are compared as strings, code unit by code unit;
  \<^verbatim>\<open>localeCompare\<close> on two \<^verbatim>\<open>YYYY-MM-DD\<close> strings gives the same order. The sort is stable,
  as \<^verbatim>\<open>Array.prototype.sort\<close> is, on the key (date, voucher number).
\<close>

definition ledgerReportData ::
  "LedgerAccount list \<Rightarrow> JournalEntry list \<Rightarrow> string \<Rightarrow> string \<Rightarrow> string
     \<Rightarrow> LedgerReport option" where
  "ledgerReportData accounts journalEntries ledgerAccountId ledgerStartDate ledgerEndDate =
     (if ledgerAccountId = [] then None
      else case find (\<lambda>a. la_id a = ledgerAccountId) accounts of
        None \<Rightarrow> None
      | Some selectedAccount \<Rightarrow>
          let balance0 = openingSigned selectedAccount;
              opening =
                (if la_openingBalance selectedAccount > 0
                 then [\<lparr>lr_date = ''Opening'', lr_narration = ''Opening Balance'',
                         lr_debit = (if la_openingBalanceType selectedAccount = Debit
                                     then la_openingBalance selectedAccount else 0),
                         lr_credit = (if la_openingBalanceType selectedAccount = Credit
                                      then la_openingBalance selectedAccount else 0),
                         lr_balance = balance0\<rparr>]
                 else []);
              entries =
                sort_key (\<lambda>je. (je_date je, je_voucherNumber je))
                  (filter (\<lambda>je. ledgerStartDate \<le> je_date je \<and> je_date je \<le> ledgerEndDate)
                     journalEntries);
              final =
                foldl (\<lambda>st je. foldl (ledgerLine ledgerAccountId je) st (je_transactions je))
                  (balance0, opening) entries
          in Some \<lparr>rep_accountName = la_name selectedAccount,
                    rep_transactions = snd final, rep_finalBalance = fst final\<rparr>)"

subsection \<open>Example data\<close>

text \<open>
  The ledger scenario of the specification: account A with an opening balance of 1000
  credit, voucher V1 of 2024-01-05 debiting A 500 against cash, voucher V2 of 2024-01-10
  crediting A 200 against cash.
\<close>

definition scenarioAccounts :: "LedgerAccount list" where
  "scenarioAccounts =
     [\<lparr>la_id = ''A'', la_name = ''A'', la_group = Income, la_openingBalance = 1000,
       la_openingBalanceType = Credit, la_isDefault = False\<rparr>,
      \<lparr>la_id = ''Cash'', la_name = ''Cash in Hand'', la_group = Assets, la_openingBalance = 0,
       la_openingBalanceType = Debit, la_isDefault = True\<rparr>]"

definition scenarioJournal :: "JournalEntry list" where
  "scenarioJournal =
     [\<lparr>je_date = ''2024-01-05'', je_voucherType = Journal, je_narration = ''V1'',
       je_transactions = [\<lparr>t_accountId = ''A'', t_type = Debit, t_amount = 500\<rparr>,
                          \<lparr>t_accountId = ''Cash'', t_type = Credit, t_amount = 500\<rparr>],
       je_relatedFeePaymentId = None, je_id = ''_v1'', je_voucherNumber = 1\<rparr>,
      \<lparr>je_date = ''2024-01-10'', je_voucherType = Journal, je_narration = ''V2'',
       je_transactions = [\<lparr>t_accountId = ''Cash'', t_type = Debit, t_amount = 200\<rparr>,
                          \<lparr>t_accountId = ''A'', t_type = Credit, t_amount = 200\<rparr>],
       je_relatedFeePaymentId = None, je_id = ''_v2'', je_voucherNumber = 2\<rparr>]"



subsection \<open>Trial balance\<close>

record BalanceRow =
  br_name :: string
  br_group :: AccountGroupName
  br_balance :: rat

record TrialBalance =
  tb_balances :: "BalanceRow list"
  tb_totalDebits :: rat
  tb_totalCredits :: rat

text \<open>
  The object \<^verbatim>\<open>balances\<close> is an association list in insertion order: assigning to a
  key that is present replaces its value in place, a new key goes to the end.
  The first loop of \<^verbatim>\<open>trialBalanceData\<close>:
\<close>

definition initBalances :: "LedgerAccount list \<Rightarrow> (string \<times> BalanceRow) list" where
  "initBalances accounts =
     foldl (\<lambda>balances acc.
              AList.update (la_id acc)
                \<lparr>br_name = la_name acc, br_group = la_group acc,
                 br_balance = openingSigned acc\<rparr> balances)
       [] accounts"

text \<open>The body of the inner loop over a voucher's lines; a line of an unknown account is passed over.\<close>

definition postLine :: "(string \<times> BalanceRow) list \<Rightarrow> Transaction \<Rightarrow> (string \<times> BalanceRow) list" where
  "postLine balances t =
     (case map_of balances (t_accountId t) of
        None \<Rightarrow> balances
      | Some row \<Rightarrow>
          AList.update (t_accountId t)
            (row\<lparr>br_balance := br_balance row + lineSigned t\<rparr>) balances)"

text \<open>
  \<^verbatim>\<open>trialBalanceData\<close>. The rows are sorted by name (the source uses \<^verbatim>\<open>localeCompare\<close>,
  the model the order of the code units); the two totals do not depend on the order.
\<close>

definition trialBalanceData :: "LedgerAccount list \<Rightarrow> JournalEntry list \<Rightarrow> TrialBalance" where
  "trialBalanceData accounts journalEntries =
     (let balances =
            foldl (\<lambda>bs je. foldl postLine bs (je_transactions je))
              (initBalances accounts) journalEntries;
          sortedBalances = sort_key br_name (map snd balances);
          totalDebits =
            foldl (\<lambda>sum acc. sum + (if br_balance acc > 0 then br_balance acc else 0))
              0 sortedBalances;
          totalCredits =
            foldl (\<lambda>sum acc. sum + (if br_balance acc < 0 then - br_balance acc else 0))
              0 sortedBalances
      in \<lparr>tb_balances = sortedBalances, tb_totalDebits = totalDebits,
          tb_totalCredits = totalCredits\<rparr>)"

text \<open>The condition under which the trial balance tab shows ``Totals do not match!''.\<close>

definition totalsMismatchShown :: "TrialBalance \<Rightarrow> bool" where
  "totalsMismatchShown tb \<longleftrightarrow> \<bar>tb_totalDebits tb - tb_totalCredits tb\<bar> > 1 / 100"

subsection \<open>Day book: spreadsheet import\<close>

text \<open>
  \<^verbatim>\<open>String.prototype.split\<close> on a one-character separator.
\<close>

fun splitOn :: "char \<Rightarrow> string \<Rightarrow> string list" where
  "splitOn c [] = [] # []"
| "splitOn c (x # xs) =
     (if x = c then [] # splitOn c xs
      else (case splitOn c xs of
              p # ps \<Rightarrow> (x # p) # ps
            | [] \<Rightarrow> [x] # []))"

text \<open>
  \<^verbatim>\<open>parseDateFromDDMMYYYY\<close>; the empty string is the result for an input that is refused.
  (The \<^verbatim>\<open>typeof\<close> test is in the row model below.)
\<close>

definition parseDateFromDDMMYYYY :: "string \<Rightarrow> string" where
  "parseDateFromDDMMYYYY ddmmyyyy =
     (if ddmmyyyy = [] then []
      else case splitOn CHR ''/'' ddmmyyyy of
             [day, month, year] \<Rightarrow>
               if length day \<noteq> 2 \<or> length month \<noteq> 2 \<or> length year \<noteq> 4 then []
               else year @ ''-'' @ month @ ''-'' @ day
           | _ \<Rightarrow> [])"

text \<open>\<^verbatim>\<open>toLowerCase\<close>, on the letters A to Z.\<close>

definition toLowerCase :: "string \<Rightarrow> string" where
  "toLowerCase s =
     map (\<lambda>c. if CHR ''A'' \<le> c \<and> c \<le> CHR ''Z'' then char_of (of_char c + (32::nat)) else c) s"

text \<open>
  A row of the sheet, as the five constants at the head of the loop body hold it:
  \<open>row_accountName\<close> is \<^verbatim>\<open>row["Account Name"]?.trim()\<close> (\<open>None\<close> for \<^verbatim>\<open>undefined\<close>),
  \<open>row_dateStr\<close> is \<^verbatim>\<open>row["Date"]\<close> when it is a string (\<open>None\<close> for a missing cell and
  for a cell that is not text, which \<^verbatim>\<open>parseDateFromDDMMYYYY\<close> refuses), \<open>row_debit\<close> and
  \<open>row_credit\<close> are the two \<^verbatim>\<open>parseFloat\<close> results (\<open>None\<close> for \<^verbatim>\<open>NaN\<close>), \<open>row_narration\<close>
  is \<^verbatim>\<open>row["Narration"] || ""\<close>.
\<close>

record ImportRow =
  row_accountName :: "string option"
  row_dateStr :: "string option"
  row_debit :: "rat option"
  row_credit :: "rat option"
  row_narration :: string

text \<open>\<^verbatim>\<open>x > 0\<close> on a number that may be \<^verbatim>\<open>NaN\<close>.\<close>

definition gtZero :: "rat option \<Rightarrow> bool" where
  "gtZero v = (case v of None \<Rightarrow> False | Some x \<Rightarrow> x > 0)"

text \<open>The variables the loop updates.\<close>

record ImportState =
  tempAccounts :: "Account list"
  tempExpenditures :: "string Expenditure list"
  tempIncomes :: "string IncomeEntry list"
  newAccountsCreated :: nat
  transactionsImported :: nat

text \<open>
  The body of the loop over the rows in \<^verbatim>\<open>handleFileUpload\<close> (day book). A \<^verbatim>\<open>continue\<close>
  returns the state as it is. \<open>newAccountId\<close> and \<open>newEntryId\<close> are what \<^verbatim>\<open>generateId()\<close>
  returns for the account and for the posting of this row.
\<close>

definition importRow ::
  "string \<Rightarrow> string \<Rightarrow> string \<Rightarrow> ImportState \<Rightarrow> ImportRow \<Rightarrow> ImportState" where
  "importRow importedCategoryId newAccountId newEntryId st row =
     (case (row_accountName row, row_dateStr row) of
        (Some accountName, Some dateStr) \<Rightarrow>
          if accountName = [] \<or> dateStr = []
               \<or> (row_debit row = Some 0 \<and> row_credit row = Some 0) then st
          else
            let isoDate = parseDateFromDDMMYYYY dateStr
            in if isoDate = [] then st
               else
                 let found = find (\<lambda>a. toLowerCase (acc_name a) = toLowerCase accountName)
                               (tempAccounts st);
                     account = (case found of
                                  Some a \<Rightarrow> a
                                | None \<Rightarrow> \<lparr>acc_id = newAccountId, acc_name = accountName,
                                            acc_categoryId = importedCategoryId,
                                            acc_isStudentAccount = False\<rparr>);
                     st1 = (case found of
                              Some a \<Rightarrow> st
                            | None \<Rightarrow> st\<lparr>tempAccounts := tempAccounts st @ [account],
                                          newAccountsCreated := newAccountsCreated st + 1\<rparr>)
                 in if gtZero (row_debit row) then
                      st1\<lparr>tempExpenditures := tempExpenditures st1 @
                             [\<lparr>ex_id = newEntryId, ex_date = isoDate,
                               ex_accountId = acc_id account,
                               ex_amount = orZero (row_debit row),
                               ex_remarks = row_narration row\<rparr>],
                          transactionsImported := transactionsImported st1 + 1\<rparr>
                    else if gtZero (row_credit row) then
                      st1\<lparr>tempIncomes := tempIncomes st1 @
                             [\<lparr>ie_id = newEntryId, ie_date = isoDate,
                               ie_accountId = acc_id account,
                               ie_amount = orZero (row_credit row),
                               ie_remarks = row_narration row\<rparr>],
                          transactionsImported := transactionsImported st1 + 1\<rparr>
                    else st1
      | _ \<Rightarrow> st)"

text \<open>The loop: every row is paired with the two identifiers generated for it.\<close>

definition importRows ::
  "string \<Rightarrow> ImportState \<Rightarrow> (ImportRow \<times> string \<times> string) list \<Rightarrow> ImportState" where
  "importRows importedCategoryId st rows =
     foldl (\<lambda>st (row, newAccountId, newEntryId).
              importRow importedCategoryId newAccountId newEntryId st row) st rows"



subsection \<open>Day book: the balance engine\<close>














subsection \<open>The opening balance as the specification words it\<close>








section \<open>Properties\<close>

subsection \<open>Opening-balance overrides: one per date\<close>

text \<open>
  Claim C10. After \<^verbatim>\<open>handleSaveOpeningBalance\<close> for the selected date \<open>D\<close>, the saved
  collection holds at most one override whose id is \<open>D\<close>: exactly the entered override
  when the entered amount is greater than 0, and none when it is not (an override stored
  earlier for \<open>D\<close> is removed, no zero-amount override is stored). The overrides of all
  other dates are the stored ones, in their order.
\<close>

theorem handleSaveOpeningBalance_one_per_date:
  "filter (\<lambda>ob. ob_id ob = D) (handleSaveOpeningBalance obs D amt ty) =
     (if amt > 0 then [\<lparr>ob_id = D, ob_amount = amt, ob_type = ty\<rparr>] else []) \<and>
   filter (\<lambda>ob. ob_id ob \<noteq> D) (handleSaveOpeningBalance obs D amt ty) =
     filter (\<lambda>ob. ob_id ob \<noteq> D) obs"
  by (simp add: handleSaveOpeningBalance_def Let_def)

theorem handleSaveOpeningBalance_witness:
  "handleSaveOpeningBalance
        [\<lparr>ob_id = (5::int), ob_amount = 10, ob_type = Credit\<rparr>, \<lparr>ob_id = 7, ob_amount = 3, ob_type = Debit\<rparr>]
        5 0 Credit = [\<lparr>ob_id = 7, ob_amount = 3, ob_type = Debit\<rparr>] \<and>
   filter (\<lambda>ob. ob_id ob = 5) (handleSaveOpeningBalance
        [\<lparr>ob_id = (5::int), ob_amount = 10, ob_type = Credit\<rparr>, \<lparr>ob_id = 7, ob_amount = 3, ob_type = Debit\<rparr>]
        5 20 Debit) = [\<lparr>ob_id = 5, ob_amount = 20, ob_type = Debit\<rparr>]"
  using handleSaveOpeningBalance_one_per_date
     [of "5::int" "[\<lparr>ob_id = 5, ob_amount = 10, ob_type = Credit\<rparr>, \<lparr>ob_id = 7, ob_amount = 3, ob_type = Debit\<rparr>]" 20 Debit]
  by (simp add: handleSaveOpeningBalance_def)

subsection \<open>Deleting a category\<close>

lemma filter_remove1_cat:
  "distinct (map cat_id cats) \<Longrightarrow> c \<in> set cats \<Longrightarrow>
        filter (\<lambda>x. cat_id x \<noteq> cat_id c) cats = remove1 c cats"
proof (induction cats)
  case Nil then show ?case by simp
next
  case (Cons x xs)
  show ?case
  proof (cases "x = c")
    case True
    with Cons.prems have "cat_id c \<notin> cat_id ` set xs" by simp
    then have "\<forall>y\<in>set xs. cat_id y \<noteq> cat_id c" by (metis imageI)
    then have "filter (\<lambda>x. cat_id x \<noteq> cat_id c) xs = xs" by (simp add: filter_id_conv)
    with True show ?thesis by simp
  next
    case False
    with Cons.prems have "c \<in> set xs" "distinct (map cat_id xs)" "cat_id x \<noteq> cat_id c" by auto
    with Cons.IH False show ?thesis by simp
  qed
qed

text \<open>
  Claim C9. \<^verbatim>\<open>handleDeleteCategory\<close> fails with \<open>CategoryInUse\<close>, whatever the answer to
  the confirmation, when some account's \<open>categoryId\<close> is the category's id, and then no
  collection is saved. When no account references the category, the confirmed deletion
  saves the collection without the categories of that id (a declined one leaves the
  collection as it is); with distinct category ids that is the stored collection with
  exactly the one category removed.
\<close>

theorem handleDeleteCategory_iff:
  "(list_ex (\<lambda>acc. acc_categoryId acc = cid) accounts \<longrightarrow>
      handleDeleteCategory accounts cats confirmed cid = Inl CategoryInUse) \<and>
   (\<not> list_ex (\<lambda>acc. acc_categoryId acc = cid) accounts \<longrightarrow>
      handleDeleteCategory accounts cats True cid = Inr (filter (\<lambda>c. cat_id c \<noteq> cid) cats) \<and>
      handleDeleteCategory accounts cats False cid = Inr cats \<and>
      (distinct (map cat_id cats) \<and> c \<in> set cats \<and> cat_id c = cid \<longrightarrow>
         handleDeleteCategory accounts cats True cid = Inr (remove1 c cats)))"
proof (intro conjI impI)
  assume "list_ex (\<lambda>acc. acc_categoryId acc = cid) accounts"
  then show "handleDeleteCategory accounts cats confirmed cid = Inl CategoryInUse"
    by (simp add: handleDeleteCategory_def)
next
  assume "\<not> list_ex (\<lambda>acc. acc_categoryId acc = cid) accounts"
  then show "handleDeleteCategory accounts cats True cid = Inr (filter (\<lambda>c. cat_id c \<noteq> cid) cats)"
    by (simp add: handleDeleteCategory_def)
next
  assume "\<not> list_ex (\<lambda>acc. acc_categoryId acc = cid) accounts"
  then show "handleDeleteCategory accounts cats False cid = Inr cats"
    by (simp add: handleDeleteCategory_def)
next
  assume free: "\<not> list_ex (\<lambda>acc. acc_categoryId acc = cid) accounts"
    and c: "distinct (map cat_id cats) \<and> c \<in> set cats \<and> cat_id c = cid"
  from c have "filter (\<lambda>x. cat_id x \<noteq> cid) cats = remove1 c cats"
    using filter_remove1_cat [of cats c] by blast
  with free show "handleDeleteCategory accounts cats True cid = Inr (remove1 c cats)"
    by (simp add: handleDeleteCategory_def)
qed

theorem handleDeleteCategory_witness:
  "handleDeleteCategory
     [\<lparr>acc_id = ''a1'', acc_name = ''Stationery'', acc_categoryId = ''c1'', acc_isStudentAccount = False\<rparr>]
     [\<lparr>cat_id = ''c1'', cat_name = ''Office'', cat_isSystem = False\<rparr>,
      \<lparr>cat_id = ''c2'', cat_name = ''Misc'', cat_isSystem = False\<rparr>] True ''c1'' = Inl CategoryInUse \<and>
   handleDeleteCategory
     [\<lparr>acc_id = ''a1'', acc_name = ''Stationery'', acc_categoryId = ''c1'', acc_isStudentAccount = False\<rparr>]
     [\<lparr>cat_id = ''c1'', cat_name = ''Office'', cat_isSystem = False\<rparr>,
      \<lparr>cat_id = ''c2'', cat_name = ''Misc'', cat_isSystem = False\<rparr>] True ''c2'' =
     Inr [\<lparr>cat_id = ''c1'', cat_name = ''Office'', cat_isSystem = False\<rparr>]"
  using handleDeleteCategory_iff
    [of "''c1''" "[\<lparr>acc_id = ''a1'', acc_name = ''Stationery'', acc_categoryId = ''c1'', acc_isStudentAccount = False\<rparr>]"
        "[\<lparr>cat_id = ''c1'', cat_name = ''Office'', cat_isSystem = False\<rparr>,
          \<lparr>cat_id = ''c2'', cat_name = ''Misc'', cat_isSystem = False\<rparr>]" True
        "\<lparr>cat_id = ''c1'', cat_name = ''Office'', cat_isSystem = False\<rparr>"]
    handleDeleteCategory_iff
    [of "''c2''" "[\<lparr>acc_id = ''a1'', acc_name = ''Stationery'', acc_categoryId = ''c1'', acc_isStudentAccount = False\<rparr>]"
        "[\<lparr>cat_id = ''c1'', cat_name = ''Office'', cat_isSystem = False\<rparr>,
          \<lparr>cat_id = ''c2'', cat_name = ''Misc'', cat_isSystem = False\<rparr>]" True
        "\<lparr>cat_id = ''c2'', cat_name = ''Misc'', cat_isSystem = False\<rparr>"]
  by simp

subsection \<open>Voucher numbering\<close>

lemma foldl_max_voucherNumber:
  "foldl (\<lambda>mx je. max mx (je_voucherNumber je)) m js = Max (insert m (je_voucherNumber ` set js))"
proof (induction js arbitrary: m)
  case Nil then show ?case by simp
next
  case (Cons j js)
  have "Max (insert (max m (je_voucherNumber j)) (je_voucherNumber ` set js))
      = Max (insert m (insert (je_voucherNumber j) (je_voucherNumber ` set js)))"
  proof (cases "set js = {}")
    case True then show ?thesis by simp
  next
    case False
    then have ne: "je_voucherNumber ` set js \<noteq> {}" by simp
    have fin: "finite (je_voucherNumber ` set js)" by simp
    show ?thesis
      using ne fin by (simp add: max.assoc)
  qed
  with Cons show ?case by simp
qed

lemma lastVoucherNumber_Max:
  "lastVoucherNumber js = Max (insert 0 (je_voucherNumber ` set js))"
  by (simp add: lastVoucherNumber_def foldl_max_voucherNumber)

lemma lastVoucherNumber_positive:
  assumes "list_all (\<lambda>je. 0 < je_voucherNumber je) js"
  shows "lastVoucherNumber js = (if js = [] then 0 else Max (je_voucherNumber ` set js))"
proof (cases "js = []")
  case True then show ?thesis by (simp add: lastVoucherNumber_def)
next
  case False
  then have ne: "je_voucherNumber ` set js \<noteq> {}" by simp
  from assms have "\<forall>v\<in>je_voucherNumber ` set js. 0 < v" by (auto simp: list_all_iff)
  with ne have "0 \<le> Max (je_voucherNumber ` set js)"
    by (metis List.finite_set Max_in finite_imageI less_le_not_le linorder_le_cases)
  with ne False show ?thesis by (simp add: lastVoucherNumber_Max max_def)
qed

lemma lastVoucherNumber_upper: "je \<in> set js \<Longrightarrow> je_voucherNumber je \<le> lastVoucherNumber js"
  by (simp add: lastVoucherNumber_Max)

lemma lastVoucherNumber_nonneg: "0 \<le> lastVoucherNumber js"
  by (simp add: lastVoucherNumber_Max)

lemma wellNumbered_Nil: "wellNumbered []"
  by (simp add: wellNumbered_def)

lemma wellNumbered_filter: "wellNumbered js \<Longrightarrow> wellNumbered (filter P js)"
  by (simp add: wellNumbered_def sorted_wrt_map sorted_wrt_filter list_all_iff)

text \<open>
  Claim C7. \<^verbatim>\<open>handleSaveNewJournalEntry\<close> appends the entry it is given with
  \<open>voucherNumber\<close> equal to 1 plus the maximum voucher number of the stored entries, 0
  standing for the maximum of an empty ledger. On a ledger whose numbers are positive and
  strictly increasing in posting order (the empty ledger is one, and removing entries
  keeps it one), the new number is above every stored one, the numbers stay pairwise
  distinct and strictly increasing in posting order.
\<close>

theorem handleSaveNewJournalEntry_numbering:
  assumes "wellNumbered js"
  shows "\<exists>new. handleSaveNewJournalEntry js newId entry = js @ [new] \<and>
           je_id new = newId \<and>
           NewJournalEntry.truncate new = entry \<and>
           je_voucherNumber new = 1 + (if js = [] then 0 else Max (je_voucherNumber ` set js)) \<and>
           (\<forall>je\<in>set js. je_voucherNumber je < je_voucherNumber new) \<and>
           distinct (map je_voucherNumber (js @ [new])) \<and>
           wellNumbered (js @ [new])"
proof -
  define new where "new = NewJournalEntry.extend entry
          \<lparr>je_id = newId, je_voucherNumber = lastVoucherNumber js + 1\<rparr>"
  have n: "je_voucherNumber new = lastVoucherNumber js + 1"
    by (simp add: new_def NewJournalEntry.extend_def)
  have pos: "list_all (\<lambda>je. 0 < je_voucherNumber je) js"
    and inc: "sorted_wrt (<) (map je_voucherNumber js)"
    using assms by (simp_all add: wellNumbered_def)
  have above: "\<forall>je\<in>set js. je_voucherNumber je < je_voucherNumber new"
    using lastVoucherNumber_upper n by fastforce
  have wn: "wellNumbered (js @ [new])"
    using pos inc above n lastVoucherNumber_nonneg [of js]
    by (auto simp: wellNumbered_def sorted_wrt_append)
  then have "sorted_wrt (<) (map je_voucherNumber (js @ [new]))"
    by (simp add: wellNumbered_def)
  then have d: "distinct (map je_voucherNumber (js @ [new]))"
    by (simp only: strict_sorted_iff)
  have "handleSaveNewJournalEntry js newId entry = js @ [new]"
    by (simp add: handleSaveNewJournalEntry_def new_def)
  moreover have "je_id new = newId"
    by (simp add: new_def NewJournalEntry.extend_def)
  moreover have "NewJournalEntry.truncate new = entry"
    by (simp add: new_def NewJournalEntry.extend_def NewJournalEntry.truncate_def)
  moreover have "je_voucherNumber new = 1 + (if js = [] then 0 else Max (je_voucherNumber ` set js))"
    using n lastVoucherNumber_positive [OF pos] by simp
  ultimately show ?thesis using above d wn by blast
qed

theorem handleSaveNewJournalEntry_witness:
  "wellNumbered [\<lparr>je_date = ''2024-01-05'', je_voucherType = Receipt, je_narration = ''fee'',
       je_transactions = [], je_relatedFeePaymentId = None, je_id = ''_a'', je_voucherNumber = 4\<rparr>] \<and>
   map je_voucherNumber (handleSaveNewJournalEntry
     [\<lparr>je_date = ''2024-01-05'', je_voucherType = Receipt, je_narration = ''fee'',
       je_transactions = [], je_relatedFeePaymentId = None, je_id = ''_a'', je_voucherNumber = 4\<rparr>]
     ''_b''
     \<lparr>je_date = ''2024-01-06'', je_voucherType = Payment, je_narration = ''rent'',
       je_transactions = [], je_relatedFeePaymentId = None\<rparr>) = [4, 5]"
proof -
  have wn: "wellNumbered [\<lparr>je_date = ''2024-01-05'', je_voucherType = Receipt, je_narration = ''fee'',
       je_transactions = [], je_relatedFeePaymentId = None, je_id = ''_a'', je_voucherNumber = 4\<rparr>]"
    by (simp add: wellNumbered_def)
  from handleSaveNewJournalEntry_numbering [OF wn, of "''_b''"
     "\<lparr>je_date = ''2024-01-06'', je_voucherType = Payment, je_narration = ''rent'',
       je_transactions = [], je_relatedFeePaymentId = None\<rparr>"]
  show ?thesis using wn by auto
qed

subsection \<open>Voucher entry: what the form admits\<close>

text \<open>
  Claim C2. Every admitted voucher should have balanced stored lines. \<^verbatim>\<open>handleSave\<close>
  compares the totals of all form rows, and drops the rows without an account only
  afterwards. With a first row of debit 100 and no account selected, and two rows crediting
  50 to the accounts \<open>a\<close> and \<open>b\<close>, the totals are 100 and 100, the check passes, and the
  voucher stored has the two credit lines only: debit total 0, credit total 100.
\<close>

theorem handleSave_admits_unbalanced:
  "handleSave ''2024-01-05'' Journal ''rent''
     [\<lparr>fl_id = ''_1'', fl_accountId = '''', fl_debit = Some 100, fl_credit = None\<rparr>,
      \<lparr>fl_id = ''_2'', fl_accountId = ''a'', fl_debit = None, fl_credit = Some 50\<rparr>,
      \<lparr>fl_id = ''_3'', fl_accountId = ''b'', fl_debit = None, fl_credit = Some 50\<rparr>]
   = Inr \<lparr>je_date = ''2024-01-05'', je_voucherType = Journal, je_narration = ''rent'',
           je_transactions =
             [\<lparr>t_accountId = ''a'', t_type = Credit, t_amount = 50\<rparr>,
              \<lparr>t_accountId = ''b'', t_type = Credit, t_amount = 50\<rparr>],
           je_relatedFeePaymentId = None\<rparr> \<and>
   map (\<lambda>je. (lineTotal Debit (je_transactions je), lineTotal Credit (je_transactions je)))
     (saveVoucher [] ''_v'' ''2024-01-05'' Journal ''rent''
       [\<lparr>fl_id = ''_1'', fl_accountId = '''', fl_debit = Some 100, fl_credit = None\<rparr>,
        \<lparr>fl_id = ''_2'', fl_accountId = ''a'', fl_debit = None, fl_credit = Some 50\<rparr>,
        \<lparr>fl_id = ''_3'', fl_accountId = ''b'', fl_debit = None, fl_credit = Some 50\<rparr>])
   = [(0, 100)]"
  by (simp add: handleSave_def saveVoucher_def handleSaveNewJournalEntry_def totalDebit_def
      totalCredit_def orZero_def finalTransaction_def List.map_filter_def lineTotal_def
      NewJournalEntry.extend_def)

subsection \<open>Ledger report: the scenario\<close>

text \<open>
  Claim C4 (as the code has it). For account A with opening balance 1000 credit, V1 of
  2024-01-05 debiting A 500 and V2 of 2024-01-10 crediting A 200, the report over
  2024-01-01 to 2024-01-31 has three rows: the row \<open>Opening\<close> (credit 1000, balance
  \<open>- 1000\<close>), then (2024-01-05, debit 500, balance \<open>- 500\<close>) and (2024-01-10, credit 200,
  balance \<open>- 700\<close>). The running balance is signed with debit positive, so the three
  balances are shown as 1000 Cr, 500 Cr and 700 Cr; the final balance is \<open>- 700\<close>.
\<close>

theorem ledgerReportData_scenario:
  "ledgerReportData scenarioAccounts scenarioJournal ''A'' ''2024-01-01'' ''2024-01-31''
   = Some \<lparr>rep_accountName = ''A'',
            rep_transactions =
              [\<lparr>lr_date = ''Opening'', lr_narration = ''Opening Balance'', lr_debit = 0,
                lr_credit = 1000, lr_balance = - 1000\<rparr>,
               \<lparr>lr_date = ''2024-01-05'', lr_narration = ''V1'', lr_debit = 500,
                lr_credit = 0, lr_balance = - 500\<rparr>,
               \<lparr>lr_date = ''2024-01-10'', lr_narration = ''V2'', lr_debit = 0,
                lr_credit = 200, lr_balance = - 700\<rparr>],
            rep_finalBalance = - 700\<rparr>"
  by (simp add: ledgerReportData_def openingSigned_def lineSigned_def ledgerLine_def
      scenarioAccounts_def scenarioJournal_def)

text \<open>
  The claim as stated, two rows with the balances 500 and 700, fails on the number of
  rows and on the sign of the stored balances.
\<close>

theorem ledgerReportData_scenario_counterexample:
  "map_option (map lr_balance \<circ> rep_transactions)
     (ledgerReportData scenarioAccounts scenarioJournal ''A'' ''2024-01-01'' ''2024-01-31'')
     = Some [- 1000, - 500, - 700] \<and>
   map_option (map lr_balance \<circ> rep_transactions)
     (ledgerReportData scenarioAccounts scenarioJournal ''A'' ''2024-01-01'' ''2024-01-31'')
     \<noteq> Some [500, 700] \<and>
   map_option (length \<circ> rep_transactions)
     (ledgerReportData scenarioAccounts scenarioJournal ''A'' ''2024-01-01'' ''2024-01-31'')
     \<noteq> Some 2"
  by (simp add: ledgerReportData_def openingSigned_def lineSigned_def ledgerLine_def
      scenarioAccounts_def scenarioJournal_def)

subsection \<open>Fee payments and linked vouchers\<close>





subsection \<open>Trial balance: the two totals\<close>

lemma foldl_add_sum_list:
  "foldl (\<lambda>s x. s + f x) a xs = a + sum_list (map f xs)" for a :: rat
  by (induction xs arbitrary: a) (simp_all add: add.assoc)

lemma sum_list_sort_key:
  "sum_list (map f (sort_key g xs)) = sum_list (map f xs)" for f :: "'a \<Rightarrow> rat"
proof -
  have "sum_mset (image_mset f (mset (sort_key g xs))) = sum_mset (image_mset f (mset xs))"
    by simp
  then show ?thesis by (simp only: mset_map [symmetric] sum_mset_sum_list)
qed

lemma totals_difference:
  "tb_totalDebits (trialBalanceData accounts journalEntries)
   - tb_totalCredits (trialBalanceData accounts journalEntries)
   = sum_list (map (\<lambda>kv. br_balance (snd kv))
       (foldl (\<lambda>bs je. foldl postLine bs (je_transactions je))
          (initBalances accounts) journalEntries))"
proof -
  define bal where "bal = foldl (\<lambda>bs je. foldl postLine bs (je_transactions je))
          (initBalances accounts) journalEntries"
  have split: "sum_list (map (\<lambda>acc. if br_balance acc > 0 then br_balance acc else 0) rows)
        - sum_list (map (\<lambda>acc. if br_balance acc < 0 then - br_balance acc else 0) rows)
        = sum_list (map br_balance rows)" for rows :: "BalanceRow list"
    by (induction rows) auto
  have "tb_totalDebits (trialBalanceData accounts journalEntries)
        = sum_list (map (\<lambda>acc. if br_balance acc > 0 then br_balance acc else 0) (map snd bal))"
    by (simp add: trialBalanceData_def Let_def foldl_add_sum_list sum_list_sort_key bal_def)
  moreover have "tb_totalCredits (trialBalanceData accounts journalEntries)
        = sum_list (map (\<lambda>acc. if br_balance acc < 0 then - br_balance acc else 0) (map snd bal))"
    by (simp add: trialBalanceData_def Let_def foldl_add_sum_list sum_list_sort_key bal_def)
  moreover have "sum_list (map br_balance (map snd bal))
        = sum_list (map (\<lambda>kv. br_balance (snd kv)) bal)"
    by (simp add: comp_def)
  ultimately show ?thesis using split [of "map snd bal"] by (simp only: bal_def)
qed

lemma update_total_present:
  "distinct (map fst bs) \<Longrightarrow> map_of bs k = Some r \<Longrightarrow>
   sum_list (map (\<lambda>kv. br_balance (snd kv)) (AList.update k v bs))
   = sum_list (map (\<lambda>kv. br_balance (snd kv)) bs) - br_balance r + br_balance v"
  by (induction bs) (auto split: if_splits)

lemma update_total_absent:
  "map_of bs k = None \<Longrightarrow>
   sum_list (map (\<lambda>kv. br_balance (snd kv)) (AList.update k v bs))
   = sum_list (map (\<lambda>kv. br_balance (snd kv)) bs) + br_balance v"
  by (induction bs) (auto split: if_splits)

lemma postLine_keys: "map fst (postLine bs t) = map fst bs"
proof (cases "map_of bs (t_accountId t)")
  case None
  then show ?thesis by (simp add: postLine_def)
next
  case (Some r)
  then have "t_accountId t \<in> set (map fst bs)"
    by (metis map_of_eq_None_iff option.distinct(1) set_map)
  with Some show ?thesis by (simp add: postLine_def update_keys)
qed

lemma postLine_total:
  assumes "distinct (map fst bs)"
  shows "sum_list (map (\<lambda>kv. br_balance (snd kv)) (postLine bs t))
   = sum_list (map (\<lambda>kv. br_balance (snd kv)) bs)
     + (if t_accountId t \<in> set (map fst bs) then lineSigned t else 0)"
proof (cases "map_of bs (t_accountId t)")
  case None
  then have "t_accountId t \<notin> set (map fst bs)"
    by (metis map_of_eq_None_iff set_map)
  with None show ?thesis by (simp add: postLine_def)
next
  case (Some r)
  then have "t_accountId t \<in> set (map fst bs)"
    by (metis map_of_eq_None_iff option.distinct(1) set_map)
  with Some assms show ?thesis by (simp add: postLine_def update_total_present)
qed

lemma postLines_keys: "map fst (foldl postLine bs ts) = map fst bs"
  by (induction ts arbitrary: bs) (simp_all add: postLine_keys)

lemma postLines_total:
  "distinct (map fst bs) \<Longrightarrow>
   sum_list (map (\<lambda>kv. br_balance (snd kv)) (foldl postLine bs ts))
   = sum_list (map (\<lambda>kv. br_balance (snd kv)) bs)
     + sum_list (map lineSigned (filter (\<lambda>t. t_accountId t \<in> set (map fst bs)) ts))"
proof (induction ts arbitrary: bs)
  case Nil then show ?case by simp
next
  case (Cons t ts)
  have "distinct (map fst (postLine bs t))" using Cons.prems by (simp add: postLine_keys)
  from Cons.IH [OF this] Cons.prems show ?case
    by (simp add: postLine_total postLine_keys)
qed

lemma journal_keys:
  "map fst (foldl (\<lambda>bs je. foldl postLine bs (je_transactions je)) bs js) = map fst bs"
  by (induction js arbitrary: bs) (simp_all add: postLines_keys)

lemma journal_total:
  "distinct (map fst bs) \<Longrightarrow>
   sum_list (map (\<lambda>kv. br_balance (snd kv))
     (foldl (\<lambda>bs je. foldl postLine bs (je_transactions je)) bs js))
   = sum_list (map (\<lambda>kv. br_balance (snd kv)) bs)
     + sum_list (map (\<lambda>je. sum_list (map lineSigned
          (filter (\<lambda>t. t_accountId t \<in> set (map fst bs)) (je_transactions je)))) js)"
proof (induction js arbitrary: bs)
  case Nil then show ?case by simp
next
  case (Cons je js)
  have "distinct (map fst (foldl postLine bs (je_transactions je)))"
    using Cons.prems by (simp add: postLines_keys)
  from Cons.IH [OF this] Cons.prems show ?case
    by (simp add: postLines_total postLines_keys)
qed

lemma initBalances_foldl:
  "distinct (map fst bs) \<Longrightarrow> distinct (map la_id accs) \<Longrightarrow>
   set (map la_id accs) \<inter> set (map fst bs) = {} \<Longrightarrow>
   map fst (foldl (\<lambda>balances acc.
              AList.update (la_id acc)
                \<lparr>br_name = la_name acc, br_group = la_group acc,
                 br_balance = openingSigned acc\<rparr> balances) bs accs)
     = map fst bs @ map la_id accs \<and>
   sum_list (map (\<lambda>kv. br_balance (snd kv)) (foldl (\<lambda>balances acc.
              AList.update (la_id acc)
                \<lparr>br_name = la_name acc, br_group = la_group acc,
                 br_balance = openingSigned acc\<rparr> balances) bs accs))
     = sum_list (map (\<lambda>kv. br_balance (snd kv)) bs) + sum_list (map openingSigned accs)"
proof (induction accs arbitrary: bs)
  case Nil then show ?case by simp
next
  case (Cons a accs)
  let ?row = "\<lparr>br_name = la_name a, br_group = la_group a, br_balance = openingSigned a\<rparr>"
  let ?bs = "AList.update (la_id a) ?row bs"
  from Cons.prems have fresh: "la_id a \<notin> set (map fst bs)" by auto
  then have none: "map_of bs (la_id a) = None" by (metis map_of_eq_None_iff set_map)
  have keys: "map fst ?bs = map fst bs @ [la_id a]" using fresh by (simp add: update_keys)
  have d: "distinct (map fst ?bs)" using Cons.prems(1) by (rule distinct_update)
  have d2: "distinct (map la_id accs)" using Cons.prems(2) by simp
  have disj: "set (map la_id accs) \<inter> set (map fst ?bs) = {}"
    using Cons.prems(2,3) by (simp only: keys) auto
  from Cons.IH [OF d d2 disj] keys none show ?case
    by (simp add: update_total_absent)
qed

lemma initBalances_keys:
  "distinct (map la_id accounts) \<Longrightarrow> map fst (initBalances accounts) = map la_id accounts"
  using initBalances_foldl [of "[]" accounts] by (simp add: initBalances_def)

lemma initBalances_total:
  "distinct (map la_id accounts) \<Longrightarrow>
   sum_list (map (\<lambda>kv. br_balance (snd kv)) (initBalances accounts))
   = sum_list (map openingSigned accounts)"
  using initBalances_foldl [of "[]" accounts] by (simp add: initBalances_def)

lemma lineSigned_total:
  "sum_list (map lineSigned ts) = lineTotal Debit ts - lineTotal Credit ts"
proof (induction ts)
  case Nil then show ?case by (simp add: lineTotal_def)
next
  case (Cons t ts)
  then show ?case by (cases "t_type t") (simp_all add: lineTotal_def lineSigned_def)
qed

text \<open>
  Claim C3 (as the code has it). For a ledger whose accounts have distinct ids and whose
  vouchers are balanced and reference listed accounts only, \<open>totalDebits - totalCredits\<close>
  is the sum of the accounts' signed opening balances (debit positive). The two totals
  are equal exactly when the opening balances net to zero, and the mismatch is reported
  exactly when the difference is above 0.01 in absolute value.
\<close>

theorem trialBalanceData_difference:
  assumes ids: "distinct (map la_id accounts)"
    and known: "\<forall>je\<in>set journalEntries. \<forall>t\<in>set (je_transactions je).
                  t_accountId t \<in> set (map la_id accounts)"
    and balanced: "\<forall>je\<in>set journalEntries.
                  lineTotal Debit (je_transactions je) = lineTotal Credit (je_transactions je)"
  shows "tb_totalDebits (trialBalanceData accounts journalEntries)
         - tb_totalCredits (trialBalanceData accounts journalEntries)
         = sum_list (map openingSigned accounts) \<and>
         (tb_totalDebits (trialBalanceData accounts journalEntries)
            = tb_totalCredits (trialBalanceData accounts journalEntries)
          \<longleftrightarrow> sum_list (map openingSigned accounts) = 0) \<and>
         (totalsMismatchShown (trialBalanceData accounts journalEntries)
          \<longleftrightarrow> \<bar>sum_list (map openingSigned accounts)\<bar> > 1 / 100)"
proof -
  have d: "distinct (map fst (initBalances accounts))"
    using ids by (simp add: initBalances_keys)
  have "sum_list (map lineSigned
          (filter (\<lambda>t. t_accountId t \<in> set (map fst (initBalances accounts)))
             (je_transactions je))) = 0"
    if "je \<in> set journalEntries" for je
  proof -
    from known that have "\<forall>t\<in>set (je_transactions je).
        t_accountId t \<in> set (map fst (initBalances accounts))"
      using ids by (simp only: initBalances_keys) blast
    then have "filter (\<lambda>t. t_accountId t \<in> set (map fst (initBalances accounts)))
             (je_transactions je) = je_transactions je"
      by (simp only: filter_id_conv)
    with balanced that show ?thesis by (simp add: lineSigned_total)
  qed
  then have "map (\<lambda>je. sum_list (map lineSigned
          (filter (\<lambda>t. t_accountId t \<in> set (map fst (initBalances accounts)))
             (je_transactions je)))) journalEntries = map (\<lambda>je. 0) journalEntries"
    by (intro map_cong refl)
  then have "sum_list (map (\<lambda>je. sum_list (map lineSigned
          (filter (\<lambda>t. t_accountId t \<in> set (map fst (initBalances accounts)))
             (je_transactions je)))) journalEntries) = 0"
    by (simp only: sum_list_0)
  with journal_total [OF d, of journalEntries] initBalances_total [OF ids]
  have diff: "tb_totalDebits (trialBalanceData accounts journalEntries)
         - tb_totalCredits (trialBalanceData accounts journalEntries)
         = sum_list (map openingSigned accounts)"
    by (simp only: totals_difference)
  then show ?thesis by (auto simp: totalsMismatchShown_def)
qed

theorem trialBalanceData_witness:
  "tb_totalDebits (trialBalanceData scenarioAccounts scenarioJournal)
   - tb_totalCredits (trialBalanceData scenarioAccounts scenarioJournal) = - 1000 \<and>
   totalsMismatchShown (trialBalanceData scenarioAccounts scenarioJournal)"
proof -
  have ids: "distinct (map la_id scenarioAccounts)"
    by (simp add: scenarioAccounts_def)
  have known: "\<forall>je\<in>set scenarioJournal. \<forall>t\<in>set (je_transactions je).
                  t_accountId t \<in> set (map la_id scenarioAccounts)"
    by (simp add: scenarioAccounts_def scenarioJournal_def)
  have balanced: "\<forall>je\<in>set scenarioJournal.
                  lineTotal Debit (je_transactions je) = lineTotal Credit (je_transactions je)"
    by (simp add: scenarioJournal_def lineTotal_def)
  have "sum_list (map openingSigned scenarioAccounts) = - 1000"
    by (simp add: scenarioAccounts_def openingSigned_def)
  with trialBalanceData_difference [OF ids known balanced] show ?thesis by simp
qed

text \<open>
  The claim as stated fails on the scenario ledger, whose two vouchers are balanced: the
  totals are 0 and 1000, because of the opening balance of A. And a difference of 0.005
  is not reported.
\<close>

theorem trialBalanceData_counterexample:
  "map (lineTotal Debit \<circ> je_transactions) scenarioJournal
     = map (lineTotal Credit \<circ> je_transactions) scenarioJournal \<and>
   tb_totalDebits (trialBalanceData scenarioAccounts scenarioJournal) = 0 \<and>
   tb_totalCredits (trialBalanceData scenarioAccounts scenarioJournal) = 1000 \<and>
   tb_totalDebits (trialBalanceData
     [\<lparr>la_id = ''A'', la_name = ''A'', la_group = Assets, la_openingBalance = 1 / 200,
       la_openingBalanceType = Debit, la_isDefault = False\<rparr>] []) = 1 / 200 \<and>
   tb_totalCredits (trialBalanceData
     [\<lparr>la_id = ''A'', la_name = ''A'', la_group = Assets, la_openingBalance = 1 / 200,
       la_openingBalanceType = Debit, la_isDefault = False\<rparr>] []) = 0 \<and>
   \<not> totalsMismatchShown (trialBalanceData
     [\<lparr>la_id = ''A'', la_name = ''A'', la_group = Assets, la_openingBalance = 1 / 200,
       la_openingBalanceType = Debit, la_isDefault = False\<rparr>] [])"
  by (simp add: scenarioAccounts_def scenarioJournal_def lineTotal_def trialBalanceData_def
      initBalances_def postLine_def openingSigned_def lineSigned_def totalsMismatchShown_def)

subsection \<open>Spreadsheet import: one row\<close>

lemma splitOn_nonempty: "splitOn c s \<noteq> []"
  by (induction s) (auto split: list.splits)

lemma splitOn_no_separator: "c \<notin> set a \<Longrightarrow> splitOn c a = [a]"
  by (induction a) auto

lemma splitOn_at_separator: "c \<notin> set a \<Longrightarrow> splitOn c (a @ c # r) = a # splitOn c r"
  by (induction a) (auto split: list.splits simp: splitOn_nonempty)

lemma splitOn_first:
  "splitOn c s = p # ps \<Longrightarrow>
   c \<notin> set p \<and> (if ps = [] then s = p else \<exists>r. s = p @ c # r \<and> splitOn c r = ps)"
proof (induction s arbitrary: p ps)
  case Nil
  then show ?case by simp
next
  case (Cons x s)
  show ?case
  proof (cases "x = c")
    case True
    with Cons.prems have "p = []" "ps = splitOn c s" by simp_all
    with True show ?thesis by (simp add: splitOn_nonempty)
  next
    case False
    obtain q qs where q: "splitOn c s = q # qs"
      using splitOn_nonempty [of c s] by (cases "splitOn c s") auto
    with False Cons.prems have p: "p = x # q" "ps = qs" by simp_all
    from Cons.IH [OF q] False p show ?thesis by auto
  qed
qed

lemma parseDateFromDDMMYYYY_accepts:
  "parseDateFromDDMMYYYY s \<noteq> [] \<longleftrightarrow>
   (\<exists>d m y. s = d @ ''/'' @ m @ ''/'' @ y \<and> length d = 2 \<and> length m = 2 \<and> length y = 4 \<and>
     CHR ''/'' \<notin> set d \<and> CHR ''/'' \<notin> set m \<and> CHR ''/'' \<notin> set y)"
proof
  assume ok: "parseDateFromDDMMYYYY s \<noteq> []"
  then obtain d m y where parts: "splitOn CHR ''/'' s = [d, m, y]"
    and len: "length d = 2" "length m = 2" "length y = 4"
    by (auto simp: parseDateFromDDMMYYYY_def split: if_splits list.splits)
  from splitOn_first [OF parts] obtain r where
    d: "CHR ''/'' \<notin> set d" and s: "s = d @ CHR ''/'' # r" and r: "splitOn CHR ''/'' r = [m, y]"
    by auto
  from splitOn_first [OF r] obtain r' where
    m: "CHR ''/'' \<notin> set m" and r': "r = m @ CHR ''/'' # r'" and y': "splitOn CHR ''/'' r' = [y]"
    by auto
  from splitOn_first [OF y'] have y: "CHR ''/'' \<notin> set y" "r' = y" by auto
  from s r' y d m len show "\<exists>d m y. s = d @ ''/'' @ m @ ''/'' @ y \<and> length d = 2 \<and>
     length m = 2 \<and> length y = 4 \<and>
     CHR ''/'' \<notin> set d \<and> CHR ''/'' \<notin> set m \<and> CHR ''/'' \<notin> set y"
    by auto
next
  assume "\<exists>d m y. s = d @ ''/'' @ m @ ''/'' @ y \<and> length d = 2 \<and> length m = 2 \<and> length y = 4 \<and>
     CHR ''/'' \<notin> set d \<and> CHR ''/'' \<notin> set m \<and> CHR ''/'' \<notin> set y"
  then obtain d m y where s: "s = d @ ''/'' @ m @ ''/'' @ y"
    and len: "length d = 2" "length m = 2" "length y = 4"
    and sep: "CHR ''/'' \<notin> set d" "CHR ''/'' \<notin> set m" "CHR ''/'' \<notin> set y"
    by blast
  have "splitOn CHR ''/'' s = [d, m, y]"
    using sep by (simp add: s splitOn_at_separator splitOn_no_separator)
  moreover from len have "y \<noteq> []" by auto
  ultimately show "parseDateFromDDMMYYYY s \<noteq> []"
    using len s by (simp add: parseDateFromDDMMYYYY_def)
qed

text \<open>
  So the dates \<^verbatim>\<open>parseDateFromDDMMYYYY\<close> accepts are the texts of two, two and four
  characters joined by two slashes; the characters need not be digits.
\<close>

text \<open>The loop goes on with the rows that follow, whatever the row was: it has no exit.\<close>

lemma importRows_Cons:
  "importRows cat st ((row, aid, eid) # rows) = importRows cat (importRow cat aid eid st row) rows"
  by (simp add: importRows_def)




subsection \<open>The balance engine\<close>
































end
